theory Spec2Isabelle
  imports Main
begin

section \<open>Python values held by the settings record\<close>

text \<open>
  Modelled from the spec: the enumerations \<open>OutputMode\<close> and \<open>WindowMode\<close> are declared
  in the configuration module, which is not among the sources. The specification's data
  model gives their members (type, clipboard; floating, normal); the settings module and
  its tests name them \<open>OutputMode.TYPE\<close>, \<open>OutputMode.CLIPBOARD\<close>,
  \<open>WindowMode.FLOATING\<close>, \<open>WindowMode.NORMAL\<close> and look them up by the strings
  \<open>"type"\<close>, \<open>"clipboard"\<close>, \<open>"floating"\<close>, \<open>"normal"\<close>. The members are string-based
  (the record annotates the fields as \<open>str\<close> and \<open>json.dump\<close> writes them), so they
  compare equal to their value string.
\<close>

datatype OutputMode = OutputMode_TYPE | OutputMode_CLIPBOARD

datatype WindowMode = WindowMode_FLOATING | WindowMode_NORMAL

fun OutputMode_value :: "OutputMode \<Rightarrow> string" where
  "OutputMode_value OutputMode_TYPE = ''type''"
| "OutputMode_value OutputMode_CLIPBOARD = ''clipboard''"

fun WindowMode_value :: "WindowMode \<Rightarrow> string" where
  "WindowMode_value WindowMode_FLOATING = ''floating''"
| "WindowMode_value WindowMode_NORMAL = ''normal''"

text \<open>
  What \<open>str()\<close> returns on a member depends on how the configuration module declares the
  enumerations (the value for a \<open>StrEnum\<close>, \<open>ClassName.MEMBER\<close> for a \<open>str\<close> mix-in), so
  it is a parameter of the model, as is the application's base directory.
\<close>

record config =
  OutputMode_str :: "OutputMode \<Rightarrow> string"
  WindowMode_str :: "WindowMode \<Rightarrow> string"
  BASE_DIR :: string

definition value_config :: config where
  "value_config =
     \<lparr>OutputMode_str = OutputMode_value, WindowMode_str = WindowMode_value, BASE_DIR = ''app''\<rparr>"

fun OutputMode_name :: "OutputMode \<Rightarrow> string" where
  "OutputMode_name OutputMode_TYPE = ''OutputMode.TYPE''"
| "OutputMode_name OutputMode_CLIPBOARD = ''OutputMode.CLIPBOARD''"

fun WindowMode_name :: "WindowMode \<Rightarrow> string" where
  "WindowMode_name WindowMode_FLOATING = ''WindowMode.FLOATING''"
| "WindowMode_name WindowMode_NORMAL = ''WindowMode.NORMAL''"

definition name_config :: config where
  "name_config =
     \<lparr>OutputMode_str = OutputMode_name, WindowMode_str = WindowMode_name, BASE_DIR = ''app''\<rparr>"

text \<open>
  The values a field or a dictionary entry can hold: \<open>None\<close>, booleans, unbounded
  integers, strings (one \<open>char\<close> per code point) and the members of the two
  enumerations. Floating-point numbers and nested containers are left out.
\<close>

datatype pyval =
    PNone
  | PBool bool
  | PInt int
  | PStr string
  | POutputMode OutputMode
  | PWindowMode WindowMode

datatype error =
    ValueError | TypeError | AttributeError | UnboundLocalError | RuntimeError
  | JSONDecodeError | OSError

subsection \<open>The built-in conversions \<open>str\<close>, \<open>bool\<close> and \<open>int\<close>\<close>

definition digit_char :: "nat \<Rightarrow> char" where
  "digit_char d = char_of (48 + d)"

fun digits :: "nat \<Rightarrow> string" where
  "digits n = (if n < 10 then [digit_char n] else digits (n div 10) @ [digit_char (n mod 10)])"

declare digits.simps [simp del]

text \<open>
  The interpreter (from version 3.11 on) refuses to convert between \<open>str\<close> and \<open>int\<close>
  when the number has more than 4300 digits, and raises \<open>ValueError\<close>.
\<close>

definition MAX_STR_DIGITS :: nat where
  "MAX_STR_DIGITS = 4300"

definition str_int :: "int \<Rightarrow> error + string" where
  "str_int i =
     (let ds = digits (nat \<bar>i\<bar>)
      in if MAX_STR_DIGITS < length ds then Inl ValueError
         else Inr (if i < 0 then CHR ''-'' # ds else ds))"

fun py_str :: "config \<Rightarrow> pyval \<Rightarrow> error + string" where
  "py_str cfg PNone = Inr ''None''"
| "py_str cfg (PBool b) = Inr (if b then ''True'' else ''False'')"
| "py_str cfg (PInt i) = str_int i"
| "py_str cfg (PStr s) = Inr s"
| "py_str cfg (POutputMode m) = Inr (OutputMode_str cfg m)"
| "py_str cfg (PWindowMode m) = Inr (WindowMode_str cfg m)"

fun py_bool :: "pyval \<Rightarrow> bool" where
  "py_bool PNone = False"
| "py_bool (PBool b) = b"
| "py_bool (PInt i) = (i \<noteq> 0)"
| "py_bool (PStr s) = (s \<noteq> [])"
| "py_bool (POutputMode m) = (OutputMode_value m \<noteq> [])"
| "py_bool (PWindowMode m) = (WindowMode_value m \<noteq> [])"

text \<open>
  \<open>int(s)\<close> on a string: surrounding white space is stripped (tab to carriage return,
  space, and the two non-ASCII spaces below 256), one sign is allowed, and the rest is
  decimal digits in groups separated by single underscores, at most 4300 digits in all.
\<close>

definition is_space :: "char \<Rightarrow> bool" where
  "is_space c = (of_char c \<in> {9, 10, 11, 12, 13, 32, 133, 160 :: nat})"

definition is_digit :: "char \<Rightarrow> bool" where
  "is_digit c = (48 \<le> (of_char c :: nat) \<and> (of_char c :: nat) \<le> 57)"

definition strip :: "string \<Rightarrow> string" where
  "strip s = rev (dropWhile is_space (rev (dropWhile is_space s)))"

fun digit_groups :: "bool \<Rightarrow> string \<Rightarrow> bool" where
  "digit_groups after_digit [] = after_digit"
| "digit_groups after_digit (c # cs) =
     (if is_digit c then digit_groups True cs
      else if c = CHR ''_'' \<and> after_digit then digit_groups False cs
      else False)"

definition digits_value :: "string \<Rightarrow> int" where
  "digits_value s = foldl (\<lambda>acc c. 10 * acc + (int (of_char c) - 48)) 0 (filter is_digit s)"

definition parse_digits :: "string \<Rightarrow> error + int" where
  "parse_digits cs =
     (if \<not> digit_groups False cs then Inl ValueError
      else if MAX_STR_DIGITS < length (filter is_digit cs) then Inl ValueError
      else Inr (digits_value cs))"

definition int_of_str :: "string \<Rightarrow> error + int" where
  "int_of_str s =
     (case strip s of
        [] \<Rightarrow> Inl ValueError
      | c # cs \<Rightarrow>
          (if c = CHR ''-'' then (case parse_digits cs of Inl e \<Rightarrow> Inl e | Inr n \<Rightarrow> Inr (- n))
           else if c = CHR ''+'' then parse_digits cs
           else parse_digits (c # cs)))"

fun py_int :: "pyval \<Rightarrow> error + int" where
  "py_int PNone = Inl TypeError"
| "py_int (PBool b) = Inr (if b then 1 else 0)"
| "py_int (PInt i) = Inr i"
| "py_int (PStr s) = int_of_str s"
| "py_int (POutputMode m) = int_of_str (OutputMode_value m)"
| "py_int (PWindowMode m) = int_of_str (WindowMode_value m)"

text \<open>
  Looking a member up by value, \<open>OutputMode(v)\<close> and \<open>WindowMode(v)\<close>: a member is
  returned as it is, a string equal to a member's value gives that member, and anything
  else raises \<open>ValueError\<close>.
\<close>

fun OutputMode_call :: "pyval \<Rightarrow> error + OutputMode" where
  "OutputMode_call (POutputMode m) = Inr m"
| "OutputMode_call (PStr s) =
     (if s = ''type'' then Inr OutputMode_TYPE
      else if s = ''clipboard'' then Inr OutputMode_CLIPBOARD else Inl ValueError)"
| "OutputMode_call (PWindowMode m) =
     (if WindowMode_value m = ''type'' then Inr OutputMode_TYPE
      else if WindowMode_value m = ''clipboard'' then Inr OutputMode_CLIPBOARD else Inl ValueError)"
| "OutputMode_call v = Inl ValueError"

fun WindowMode_call :: "pyval \<Rightarrow> error + WindowMode" where
  "WindowMode_call (PWindowMode m) = Inr m"
| "WindowMode_call (PStr s) =
     (if s = ''floating'' then Inr WindowMode_FLOATING
      else if s = ''normal'' then Inr WindowMode_NORMAL else Inl ValueError)"
| "WindowMode_call (POutputMode m) =
     (if OutputMode_value m = ''floating'' then Inr WindowMode_FLOATING
      else if OutputMode_value m = ''normal'' then Inr WindowMode_NORMAL else Inl ValueError)"
| "WindowMode_call v = Inl ValueError"

text \<open>Python's \<open>==\<close> on these values: \<open>True == 1\<close>, and a member equals its value string.\<close>

fun as_number :: "pyval \<Rightarrow> int option" where
  "as_number (PBool b) = Some (if b then 1 else 0)"
| "as_number (PInt i) = Some i"
| "as_number v = None"

fun as_text :: "pyval \<Rightarrow> string option" where
  "as_text (PStr s) = Some s"
| "as_text (POutputMode m) = Some (OutputMode_value m)"
| "as_text (PWindowMode m) = Some (WindowMode_value m)"
| "as_text v = None"

definition py_eq :: "pyval \<Rightarrow> pyval \<Rightarrow> bool" where
  "py_eq v w =
     (v = w
      \<or> (case (as_number v, as_number w) of (Some i, Some j) \<Rightarrow> i = j | _ \<Rightarrow> False)
      \<or> (case (as_text v, as_text w) of (Some s, Some t) \<Rightarrow> s = t | _ \<Rightarrow> False))"

section \<open>The settings record\<close>

record UserSettings =
  push_to_talk_key :: pyval
  output_mode :: pyval
  language :: pyval
  smart_formatting_enabled :: pyval
  smart_formatting_level :: pyval
  window_mode :: pyval
  window_position_x :: pyval
  window_position_y :: pyval

definition default_settings :: UserSettings where
  "default_settings =
     \<lparr>push_to_talk_key = PStr ''f2'',
      output_mode = POutputMode OutputMode_TYPE,
      language = PStr ''fr'',
      smart_formatting_enabled = PBool True,
      smart_formatting_level = PStr ''basic'',
      window_mode = PWindowMode WindowMode_FLOATING,
      window_position_x = PInt (- 1),
      window_position_y = PInt (- 1)\<rparr>"

type_synonym pydict = "string \<rightharpoonup> pyval"

definition dict_get :: "pydict \<Rightarrow> string \<Rightarrow> pyval \<Rightarrow> pyval" where
  "dict_get data k d = (case data k of None \<Rightarrow> d | Some v \<Rightarrow> v)"

text \<open>
  \<open>OutputMode(...)\<close> and \<open>WindowMode(...)\<close> sit in a \<open>try\<close> that catches \<open>ValueError\<close>
  and puts the default in its place.
\<close>

definition try_OutputMode :: "pyval \<Rightarrow> error + OutputMode" where
  "try_OutputMode v =
     (case OutputMode_call v of
        Inr m \<Rightarrow> Inr m
      | Inl e \<Rightarrow> if e = ValueError then Inr OutputMode_TYPE else Inl e)"

definition try_WindowMode :: "pyval \<Rightarrow> error + WindowMode" where
  "try_WindowMode v =
     (case WindowMode_call v of
        Inr m \<Rightarrow> Inr m
      | Inl e \<Rightarrow> if e = ValueError then Inr WindowMode_FLOATING else Inl e)"

text \<open>
  \<open>from_dict\<close>, statement by statement. The \<open>str(...)\<close> and \<open>int(...)\<close> conversions are
  not guarded, so what they raise leaves \<open>from_dict\<close>.
\<close>

definition from_dict :: "config \<Rightarrow> pydict \<Rightarrow> error + UserSettings" where
  "from_dict cfg data =
     (case py_str cfg (dict_get data ''push_to_talk_key'' (PStr ''f2'')) of
        Inl e \<Rightarrow> Inl e
      | Inr ptt_key \<Rightarrow>
     (case py_str cfg (dict_get data ''language'' (PStr ''fr'')) of
        Inl e \<Rightarrow> Inl e
      | Inr lang \<Rightarrow>
     (case try_OutputMode (dict_get data ''output_mode'' (POutputMode OutputMode_TYPE)) of
        Inl e \<Rightarrow> Inl e
      | Inr mode \<Rightarrow>
     (case py_str cfg (dict_get data ''smart_formatting_level'' (PStr ''basic'')) of
        Inl e \<Rightarrow> Inl e
      | Inr level \<Rightarrow>
     (case py_str cfg (dict_get data ''window_mode'' (PWindowMode WindowMode_FLOATING)) of
        Inl e \<Rightarrow> Inl e
      | Inr wmode_str \<Rightarrow>
     (case try_WindowMode (PStr (take 20 wmode_str)) of
        Inl e \<Rightarrow> Inl e
      | Inr wmode \<Rightarrow>
     (case py_int (dict_get data ''window_position_x'' (PInt (- 1))) of
        Inl e \<Rightarrow> Inl e
      | Inr window_x \<Rightarrow>
     (case py_int (dict_get data ''window_position_y'' (PInt (- 1))) of
        Inl e \<Rightarrow> Inl e
      | Inr window_y \<Rightarrow>
          Inr \<lparr>push_to_talk_key = PStr (take 50 ptt_key),
               output_mode = POutputMode mode,
               language = PStr (take 10 lang),
               smart_formatting_enabled =
                 PBool (py_bool (dict_get data ''smart_formatting_enabled'' (PBool True))),
               smart_formatting_level =
                 PStr (if take 10 level \<notin> set [''none'', ''basic'', ''smart''] then ''basic''
                       else take 10 level),
               window_mode = PWindowMode wmode,
               window_position_x = PInt window_x,
               window_position_y = PInt window_y\<rparr>))))))))"

definition to_dict :: "UserSettings \<Rightarrow> pydict" where
  "to_dict s =
     [''push_to_talk_key'' \<mapsto> push_to_talk_key s,
      ''output_mode'' \<mapsto> output_mode s,
      ''language'' \<mapsto> language s,
      ''smart_formatting_enabled'' \<mapsto> smart_formatting_enabled s,
      ''smart_formatting_level'' \<mapsto> smart_formatting_level s,
      ''window_mode'' \<mapsto> window_mode s,
      ''window_position_x'' \<mapsto> window_position_x s,
      ''window_position_y'' \<mapsto> window_position_y s]"

text \<open>Equality of two records, as the dataclass compares them: field by field with \<open>==\<close>.\<close>

definition settings_eq :: "UserSettings \<Rightarrow> UserSettings \<Rightarrow> bool" where
  "settings_eq a b =
     (py_eq (push_to_talk_key a) (push_to_talk_key b)
      \<and> py_eq (output_mode a) (output_mode b)
      \<and> py_eq (language a) (language b)
      \<and> py_eq (smart_formatting_enabled a) (smart_formatting_enabled b)
      \<and> py_eq (smart_formatting_level a) (smart_formatting_level b)
      \<and> py_eq (window_mode a) (window_mode b)
      \<and> py_eq (window_position_x a) (window_position_x b)
      \<and> py_eq (window_position_y a) (window_position_y b))"

text \<open>
  The declared domain of each field (the specification's data model): what a record
  holds after valid \<open>set\<close> calls. The two enumeration fields hold a member or the
  value string of one.
\<close>

definition conforming :: "UserSettings \<Rightarrow> bool" where
  "conforming r =
     ((case push_to_talk_key r of PStr s \<Rightarrow> length s \<le> 50 | _ \<Rightarrow> False)
      \<and> (case output_mode r of
            POutputMode m \<Rightarrow> True
          | PStr s \<Rightarrow> s \<in> set [''type'', ''clipboard'']
          | _ \<Rightarrow> False)
      \<and> (case language r of PStr s \<Rightarrow> length s \<le> 10 | _ \<Rightarrow> False)
      \<and> (case smart_formatting_enabled r of PBool b \<Rightarrow> True | _ \<Rightarrow> False)
      \<and> (case smart_formatting_level r of
            PStr s \<Rightarrow> s \<in> set [''none'', ''basic'', ''smart'']
          | _ \<Rightarrow> False)
      \<and> (case window_mode r of
            PWindowMode m \<Rightarrow> True
          | PStr s \<Rightarrow> s \<in> set [''floating'', ''normal'']
          | _ \<Rightarrow> False)
      \<and> (case window_position_x r of PInt i \<Rightarrow> True | _ \<Rightarrow> False)
      \<and> (case window_position_y r of PInt i \<Rightarrow> True | _ \<Rightarrow> False))"

section \<open>The settings manager\<close>

subsection \<open>Attributes of the record\<close>

text \<open>
  \<open>hasattr\<close>, \<open>getattr\<close> and \<open>setattr\<close> on an instance of the slotted dataclass. Its
  attributes are the eight fields, the two methods the class declares, and the
  double-underscore attributes every object inherits from the interpreter; which of
  those exist is a parameter. The instance has no \<open>__dict__\<close>, so assigning to an
  attribute that is not a field raises.
\<close>

datatype attribute = Field pyval | ClassAttribute | NoAttribute

definition field_names :: "string list" where
  "field_names =
     [''push_to_talk_key'', ''output_mode'', ''language'', ''smart_formatting_enabled'',
      ''smart_formatting_level'', ''window_mode'', ''window_position_x'', ''window_position_y'']"

definition dunder :: "string \<Rightarrow> bool" where
  "dunder key = (4 \<le> length key \<and> take 2 key = ''__'' \<and> drop (length key - 2) key = ''__'')"

definition getattr_settings :: "(string \<Rightarrow> bool) \<Rightarrow> UserSettings \<Rightarrow> string \<Rightarrow> attribute" where
  "getattr_settings inherited s key =
     (if key = ''push_to_talk_key'' then Field (push_to_talk_key s)
      else if key = ''output_mode'' then Field (output_mode s)
      else if key = ''language'' then Field (language s)
      else if key = ''smart_formatting_enabled'' then Field (smart_formatting_enabled s)
      else if key = ''smart_formatting_level'' then Field (smart_formatting_level s)
      else if key = ''window_mode'' then Field (window_mode s)
      else if key = ''window_position_x'' then Field (window_position_x s)
      else if key = ''window_position_y'' then Field (window_position_y s)
      else if key = ''from_dict'' \<or> key = ''to_dict'' then ClassAttribute
      else if dunder key \<and> inherited key then ClassAttribute
      else NoAttribute)"

definition hasattr_settings :: "(string \<Rightarrow> bool) \<Rightarrow> UserSettings \<Rightarrow> string \<Rightarrow> bool" where
  "hasattr_settings inherited s key = (getattr_settings inherited s key \<noteq> NoAttribute)"

definition setattr_settings :: "UserSettings \<Rightarrow> string \<Rightarrow> pyval \<Rightarrow> error + UserSettings" where
  "setattr_settings s key v =
     (if key = ''push_to_talk_key'' then Inr (s\<lparr>push_to_talk_key := v\<rparr>)
      else if key = ''output_mode'' then Inr (s\<lparr>output_mode := v\<rparr>)
      else if key = ''language'' then Inr (s\<lparr>language := v\<rparr>)
      else if key = ''smart_formatting_enabled'' then Inr (s\<lparr>smart_formatting_enabled := v\<rparr>)
      else if key = ''smart_formatting_level'' then Inr (s\<lparr>smart_formatting_level := v\<rparr>)
      else if key = ''window_mode'' then Inr (s\<lparr>window_mode := v\<rparr>)
      else if key = ''window_position_x'' then Inr (s\<lparr>window_position_x := v\<rparr>)
      else if key = ''window_position_y'' then Inr (s\<lparr>window_position_y := v\<rparr>)
      else if key = ''__class__'' then Inl TypeError
      else Inl AttributeError)"

subsection \<open>State\<close>

text \<open>
  The manager's slots. Callbacks and the timer are objects of the interpreter, held by
  reference: a callback is the number of a callable, the timer the index of a timer in
  the list of all timers created so far. The delay is in milliseconds. The lock is not
  part of the state; what runs under it is one step of the model.
\<close>

record SettingsManager =
  settings_file :: string
  settings :: UserSettings
  callbacks :: "nat list"
  save_timer :: "nat option"
  save_delay :: nat

text \<open>
  A timer object: created with its interval and not started yet; withdrawn (cancelled
  before it was started); waiting, with its deadline; cancelled; fired.
\<close>

datatype timer = Created nat | Withdrawn | Waiting nat | Cancelled | Fired

text \<open>
  The manager together with what it acts on: the timers, the clock (milliseconds) and
  the state \<open>env\<close> that the callables read and write. A callable gets the key and the
  value; it returns the exception it raises, if any, the callables it unsubscribes with
  \<open>remove_callback\<close> while it runs (itself or others, in the order of the calls), and
  the new \<open>env\<close>. It does not subscribe callables and does not call \<open>set\<close>, \<open>load\<close> or
  \<open>save\<close>.
\<close>

record 'w system =
  mgr :: SettingsManager
  timers :: "timer list"
  now :: nat
  env :: 'w

type_synonym 'w callable = "string \<Rightarrow> pyval \<Rightarrow> 'w \<Rightarrow> error option \<times> nat list \<times> 'w"

record 'w runtime =
  inherited :: "string \<Rightarrow> bool"
  call :: "nat \<Rightarrow> 'w callable"

subsection \<open>Reading and writing a setting\<close>

datatype got = Value pyval | Method string

definition get :: "'w runtime \<Rightarrow> string \<Rightarrow> pyval \<Rightarrow> 'w system \<Rightarrow> got" where
  "get py key dflt sys =
     (case getattr_settings (inherited py) (settings (mgr sys)) key of
        Field v \<Rightarrow> Value v
      | ClassAttribute \<Rightarrow> Method key
      | NoAttribute \<Rightarrow> Value dflt)"

text \<open>
  \<open>Timer.cancel\<close> withdraws a timer that was not started, stops one that is waiting and
  does nothing to one that has fired or was cancelled. \<open>Timer.start\<close> makes a created
  timer wait for its interval; on a withdrawn timer it starts a thread that ends at once;
  on a timer that was started before it raises \<open>RuntimeError\<close>. A handle is the index
  of a timer that \<open>_schedule_save\<close> created; for any other index the model raises too.
\<close>

definition cancel :: "nat \<Rightarrow> timer list \<Rightarrow> timer list" where
  "cancel t ts =
     (if t < length ts then
        (case ts ! t of
           Created d \<Rightarrow> ts[t := Withdrawn]
         | Waiting d \<Rightarrow> ts[t := Cancelled]
         | _ \<Rightarrow> ts)
      else ts)"

definition start :: "nat \<Rightarrow> 'w system \<Rightarrow> error + 'w system" where
  "start t sys =
     (if t < length (timers sys) then
        (case timers sys ! t of
           Created d \<Rightarrow> Inr (sys\<lparr>timers := (timers sys)[t := Waiting (now sys + d)]\<rparr>)
         | Withdrawn \<Rightarrow> Inr (sys\<lparr>timers := (timers sys)[t := Cancelled]\<rparr>)
         | _ \<Rightarrow> Inl RuntimeError)
      else Inl RuntimeError)"

text \<open>
  \<open>_schedule_save\<close> is three statements, run without the lock: cancel the timer the
  manager holds, if any; create a timer and hold it; start the timer the manager holds.
  Each reads \<open>self._save_timer\<close> anew. One caller runs them in this order; the statements
  of two callers can interleave.
\<close>

datatype statement = Cancel_pending | Create_timer | Start_timer

fun execute :: "statement \<Rightarrow> 'w system \<Rightarrow> error + 'w system" where
  "execute Cancel_pending sys =
     Inr (case save_timer (mgr sys) of
            None \<Rightarrow> sys
          | Some t \<Rightarrow> sys\<lparr>timers := cancel t (timers sys)\<rparr>)"
| "execute Create_timer sys =
     Inr (sys\<lparr>timers := timers sys @ [Created (save_delay (mgr sys))],
              mgr := (mgr sys)\<lparr>save_timer := Some (length (timers sys))\<rparr>\<rparr>)"
| "execute Start_timer sys =
     (case save_timer (mgr sys) of
        None \<Rightarrow> Inl AttributeError
      | Some t \<Rightarrow> start t sys)"

fun run_statements :: "statement list \<Rightarrow> 'w system \<Rightarrow> error + 'w system" where
  "run_statements [] sys = Inr sys"
| "run_statements (x # xs) sys =
     (case execute x sys of
        Inl e \<Rightarrow> Inl e
      | Inr sys' \<Rightarrow> run_statements xs sys')"

definition schedule_save :: "'w system \<Rightarrow> error + 'w system" where
  "schedule_save sys = run_statements [Cancel_pending, Create_timer, Start_timer] sys"

text \<open>What the three statements leave when one caller runs them without interruption.\<close>

definition scheduled :: "'w system \<Rightarrow> 'w system" where
  "scheduled sys =
     sys\<lparr>timers :=
           (case save_timer (mgr sys) of None \<Rightarrow> timers sys | Some t \<Rightarrow> cancel t (timers sys))
           @ [Waiting (now sys + save_delay (mgr sys))],
         mgr := (mgr sys)\<lparr>save_timer := Some (length (timers sys))\<rparr>\<rparr>"

definition on_change :: "nat \<Rightarrow> SettingsManager \<Rightarrow> SettingsManager" where
  "on_change callback m = m\<lparr>callbacks := callbacks m @ [callback]\<rparr>"

definition remove_callback :: "nat \<Rightarrow> SettingsManager \<Rightarrow> SettingsManager" where
  "remove_callback callback m =
     (if callback \<in> set (callbacks m) then m\<lparr>callbacks := remove1 callback (callbacks m)\<rparr>
      else m)"

text \<open>
  The notification loop, \<open>for callback in self._callbacks\<close>: the iterator keeps an index
  into the list itself, not into a copy, so it sees what the callables remove while the
  loop runs. An exception of a callable is dropped.
\<close>

function notify :: "(nat \<Rightarrow> 'w callable) \<Rightarrow> nat \<Rightarrow> string \<Rightarrow> pyval \<Rightarrow> 'w system \<Rightarrow> 'w system" where
  "notify run i key v sys =
     (if i < length (callbacks (mgr sys)) then
        (case run (callbacks (mgr sys) ! i) key v (env sys) of
           (raised, removed, w) \<Rightarrow>
             notify run (Suc i) key v
               (sys\<lparr>mgr := fold remove_callback removed (mgr sys), env := w\<rparr>))
      else sys)"
  by pat_completeness auto
termination
proof (relation "measure (\<lambda>(run, i, key, v, sys). length (callbacks (mgr sys)) - i)")
  show "wf (measure (\<lambda>(run, i, key, v, sys). length (callbacks (mgr sys)) - i))"
    by simp
next
  fix run :: "nat \<Rightarrow> 'w callable" and i key v and sys :: "'w system" and x raised y removed w
  assume i: "i < length (callbacks (mgr sys))"
  have "length (callbacks (fold remove_callback rs m)) \<le> length (callbacks m)" for rs m
  proof (induction rs arbitrary: m)
    case Nil
    show ?case by simp
  next
    case (Cons r rs)
    have "length (callbacks (remove_callback r m)) \<le> length (callbacks m)"
      by (simp add: remove_callback_def length_remove1)
    with Cons [of "remove_callback r m"] show ?case by simp
  qed
  from this [of removed "mgr sys"] i
  show "((run, Suc i, key, v, sys\<lparr>mgr := fold remove_callback removed (mgr sys), env := w\<rparr>),
         (run, i, key, v, sys)) \<in> measure (\<lambda>(run, i, key, v, sys). length (callbacks (mgr sys)) - i)"
    by simp
qed

declare notify.simps [simp del]

text \<open>
  \<open>set\<close>. First the block under the lock, which returns early (\<open>None\<close>) for a key that
  is no attribute; an exception of \<open>setattr\<close> is not caught and leaves the call (\<open>Inl\<close>)
  before anything is changed. Then, without the lock, \<open>_schedule_save\<close> and the
  notification loop.
\<close>

definition set_locked ::
  "(string \<Rightarrow> bool) \<Rightarrow> string \<Rightarrow> pyval \<Rightarrow> 'w system \<Rightarrow> error + 'w system option" where
  "set_locked inh key v sys =
     (if \<not> hasattr_settings inh (settings (mgr sys)) key then Inr None
      else case setattr_settings (settings (mgr sys)) key v of
             Inl e \<Rightarrow> Inl e
           | Inr s' \<Rightarrow> Inr (Some (sys\<lparr>mgr := (mgr sys)\<lparr>settings := s'\<rparr>\<rparr>)))"

definition set_setting :: "'w runtime \<Rightarrow> string \<Rightarrow> pyval \<Rightarrow> bool \<Rightarrow> 'w system \<Rightarrow> error + 'w system" where
  "set_setting py key v save sys =
     (case set_locked (inherited py) key v sys of
        Inl e \<Rightarrow> Inl e
      | Inr None \<Rightarrow> Inr sys
      | Inr (Some sys1) \<Rightarrow>
          (case (if save then schedule_save sys1 else Inr sys1) of
             Inl e \<Rightarrow> Inl e
           | Inr sys2 \<Rightarrow> Inr (notify (call py) 0 key v sys2)))"

subsection \<open>The module-level helpers for sound and history\<close>

definition get_sound_enabled :: "'w runtime \<Rightarrow> 'w system \<Rightarrow> got" where
  "get_sound_enabled py sys = get py ''sound_enabled'' (PBool True) sys"

definition set_sound_enabled :: "'w runtime \<Rightarrow> pyval \<Rightarrow> 'w system \<Rightarrow> error + 'w system" where
  "set_sound_enabled py enabled sys = set_setting py ''sound_enabled'' enabled True sys"

definition get_history_enabled :: "'w runtime \<Rightarrow> 'w system \<Rightarrow> got" where
  "get_history_enabled py sys = get py ''history_enabled'' (PBool True) sys"

definition set_history_enabled :: "'w runtime \<Rightarrow> pyval \<Rightarrow> 'w system \<Rightarrow> error + 'w system" where
  "set_history_enabled py enabled sys = set_setting py ''history_enabled'' enabled True sys"

section \<open>Persistence\<close>

text \<open>
  The file system is a map from paths to the bytes of the file there. \<open>json.load\<close>,
  \<open>json.dump\<close> and \<open>Path.with_suffix\<close> belong to the standard library and are
  parameters; so is whether the operating system serves a call or raises.
\<close>

type_synonym files = "string \<rightharpoonup> string"

datatype json_doc = Mapping pydict | NotMapping

definition MAX_CONFIG_SIZE :: nat where
  "MAX_CONFIG_SIZE = 10 * 1024"

text \<open>
  The body of the \<open>try\<close> in \<open>load\<close>: \<open>os_error\<close> is what \<open>stat\<close> or \<open>open\<close> raises, if
  anything.
\<close>

definition load_try ::
  "config \<Rightarrow> (string \<Rightarrow> error + json_doc) \<Rightarrow> error option \<Rightarrow> SettingsManager \<Rightarrow> files
   \<Rightarrow> error + bool \<times> SettingsManager" where
  "load_try cfg json_load os_error m fs =
     (case fs (settings_file m) of
        None \<Rightarrow> Inr (False, m)
      | Some bytes \<Rightarrow>
          (case os_error of
             Some e \<Rightarrow> Inl e
           | None \<Rightarrow>
               if length bytes > MAX_CONFIG_SIZE then Inr (False, m)
               else (case json_load bytes of
                       Inl e \<Rightarrow> Inl e
                     | Inr NotMapping \<Rightarrow> Inl ValueError
                     | Inr (Mapping data) \<Rightarrow>
                         (case from_dict cfg data of
                            Inl e \<Rightarrow> Inl e
                          | Inr s \<Rightarrow> Inr (True, m\<lparr>settings := s\<rparr>)))))"

definition load ::
  "config \<Rightarrow> (string \<Rightarrow> error + json_doc) \<Rightarrow> error option \<Rightarrow> SettingsManager \<Rightarrow> files
   \<Rightarrow> bool \<times> SettingsManager" where
  "load cfg json_load os_error m fs =
     (case load_try cfg json_load os_error m fs of
        Inl e \<Rightarrow> (False, m)
      | Inr r \<Rightarrow> r)"

text \<open>The constructor: a record of defaults, then \<open>load\<close>, whose result is ignored.\<close>

definition SettingsManager_init ::
  "config \<Rightarrow> (string \<Rightarrow> error + json_doc) \<Rightarrow> error option \<Rightarrow> string option \<Rightarrow> files
   \<Rightarrow> SettingsManager" where
  "SettingsManager_init cfg json_load os_error file fs =
     snd (load cfg json_load os_error
       \<lparr>settings_file = (case file of Some f \<Rightarrow> f | None \<Rightarrow> BASE_DIR cfg @ ''/user_settings.json''),
        settings = default_settings,
        callbacks = [],
        save_timer = None,
        save_delay = 500\<rparr> fs)"

text \<open>
  \<open>save\<close>. The fault says where the operating system fails, if it does: opening the
  temporary file, writing (after so many bytes), or the final \<open>replace\<close>;
  \<open>unlink_ok\<close> says whether the handler's \<open>unlink\<close> succeeds. \<open>save_states\<close> lists the
  file systems a reader can see from the \<open>open\<close> on, the last one being the outcome.
  When \<open>with_suffix\<close> raises, the handler finds \<open>temp_file\<close> unbound and its error leaves
  the call.
\<close>

datatype fault = NoFault | OpenFails | WriteFails nat | ReplaceFails

definition writes :: "string \<Rightarrow> string \<Rightarrow> nat \<Rightarrow> files \<Rightarrow> files list" where
  "writes f bytes k fs = map (\<lambda>i. fs(f \<mapsto> take i bytes)) [0..<Suc k]"

definition replace :: "string \<Rightarrow> string \<Rightarrow> files \<Rightarrow> files" where
  "replace src dst fs = (if src = dst then fs else fs(dst := fs src, src := None))"

definition unlink :: "bool \<Rightarrow> string \<Rightarrow> files \<Rightarrow> files" where
  "unlink unlink_ok f fs = (if unlink_ok then fs(f := None) else fs)"

definition save_states ::
  "(string \<Rightarrow> error + string) \<Rightarrow> (pydict \<Rightarrow> string) \<Rightarrow> fault \<Rightarrow> bool \<Rightarrow> SettingsManager \<Rightarrow> files
   \<Rightarrow> error + bool \<times> files list" where
  "save_states with_suffix json_dump fault unlink_ok m fs =
     (case with_suffix (settings_file m) of
        Inl e \<Rightarrow> Inl UnboundLocalError
      | Inr temp_file \<Rightarrow>
          (let bytes = json_dump (to_dict (settings m))
           in case fault of
                OpenFails \<Rightarrow> Inr (False, [unlink unlink_ok temp_file fs])
              | WriteFails k \<Rightarrow>
                  (let ws = writes temp_file bytes (min k (length bytes)) fs
                   in Inr (False, ws @ [unlink unlink_ok temp_file (last ws)]))
              | ReplaceFails \<Rightarrow>
                  (let ws = writes temp_file bytes (length bytes) fs
                   in Inr (False, ws @ [unlink unlink_ok temp_file (last ws)]))
              | NoFault \<Rightarrow>
                  (let ws = writes temp_file bytes (length bytes) fs
                   in Inr (True, ws @ [replace temp_file (settings_file m) (last ws)]))))"

definition save ::
  "(string \<Rightarrow> error + string) \<Rightarrow> (pydict \<Rightarrow> string) \<Rightarrow> fault \<Rightarrow> bool \<Rightarrow> SettingsManager \<Rightarrow> files
   \<Rightarrow> error + bool \<times> files" where
  "save with_suffix json_dump fault unlink_ok m fs =
     (case save_states with_suffix json_dump fault unlink_ok m fs of
        Inl e \<Rightarrow> Inl e
      | Inr (ok, states) \<Rightarrow> Inr (ok, last states))"

section \<open>The debounce timer\<close>

text \<open>
  Time passes between calls: \<open>advance t\<close> moves the clock to \<open>t\<close> and fires the waiting
  timers whose deadline has come. A timer that fires calls \<open>save\<close>; the second component
  lists the records these calls serialise.
\<close>

fun due :: "nat \<Rightarrow> timer \<Rightarrow> bool" where
  "due t (Waiting d) = (d \<le> t)"
| "due t x = False"

definition advance :: "nat \<Rightarrow> 'w system \<Rightarrow> 'w system \<times> UserSettings list" where
  "advance t sys =
     (sys\<lparr>now := max (now sys) t, timers := map (\<lambda>x. if due t x then Fired else x) (timers sys)\<rparr>,
      map (\<lambda>x. settings (mgr sys)) (filter (due t) (timers sys)))"

text \<open>
  A run of persisting \<open>set\<close> calls, each given with the time it is made at; the result
  carries the records saved while the run lasts.
\<close>

fun run_calls ::
  "'w runtime \<Rightarrow> (nat \<times> string \<times> pyval) list \<Rightarrow> 'w system \<Rightarrow> error + 'w system \<times> UserSettings list" where
  "run_calls py [] sys = Inr (sys, [])"
| "run_calls py ((t, key, v) # rest) sys =
     (case advance t sys of
        (sys1, saved1) \<Rightarrow>
          (case set_setting py key v True sys1 of
             Inl e \<Rightarrow> Inl e
           | Inr sys2 \<Rightarrow>
               (case run_calls py rest sys2 of
                  Inl e \<Rightarrow> Inl e
                | Inr (sys3, saved) \<Rightarrow> Inr (sys3, saved1 @ saved))))"

text \<open>The indices of the timers that are outstanding: started, not cancelled, not fired.\<close>

fun is_waiting :: "timer \<Rightarrow> bool" where
  "is_waiting (Waiting d) = True"
| "is_waiting x = False"

definition outstanding :: "'w system \<Rightarrow> nat list" where
  "outstanding sys = filter (\<lambda>i. is_waiting (timers sys ! i)) [0..<length (timers sys)]"

text \<open>
  \<open>tidy\<close>: every outstanding timer is the one whose handle the manager holds.
  \<open>armed d\<close>: exactly one timer is outstanding, the manager holds its handle, and its
  deadline is \<open>d\<close>.
\<close>

definition tidy :: "'w system \<Rightarrow> bool" where
  "tidy sys = list_all (\<lambda>i. save_timer (mgr sys) = Some i) (outstanding sys)"

definition armed :: "nat \<Rightarrow> 'w system \<Rightarrow> bool" where
  "armed d sys =
     (case outstanding sys of
        [i] \<Rightarrow> save_timer (mgr sys) = Some i \<and> timers sys ! i = Waiting d
      | _ \<Rightarrow> False)"

text \<open>
  A burst: each call is on a schema field and comes no earlier than the one before it and
  less than the delay \<open>D\<close> after it; \<open>t\<close> is the time of the call before the list.
\<close>

fun rapid :: "nat \<Rightarrow> nat \<Rightarrow> (nat \<times> string \<times> pyval) list \<Rightarrow> bool" where
  "rapid D t [] = True"
| "rapid D t ((t', key, v) # rest) =
     (t \<le> t' \<and> t' < t + D \<and> key \<in> set field_names \<and> rapid D t' rest)"

fun last_time :: "nat \<Rightarrow> (nat \<times> string \<times> pyval) list \<Rightarrow> nat" where
  "last_time t [] = t"
| "last_time t ((t', key, v) # rest) = last_time t' rest"

section \<open>Sample inputs\<close>

text \<open>A record whose fields all differ from the defaults and lie in their domains.\<close>

definition sample_settings :: UserSettings where
  "sample_settings =
     \<lparr>push_to_talk_key = PStr ''ctrl+f5'',
      output_mode = PStr ''clipboard'',
      language = PStr ''en'',
      smart_formatting_enabled = PBool False,
      smart_formatting_level = PStr ''smart'',
      window_mode = PWindowMode WindowMode_NORMAL,
      window_position_x = PInt 42,
      window_position_y = PInt (- 1)\<rparr>"

text \<open>
  A runtime without callables, and the manager and system as the constructor leaves them
  when no settings file exists.
\<close>

definition quiet :: "unit runtime" where
  "quiet = \<lparr>inherited = (\<lambda>key. False), call = (\<lambda>c key v w. (None, [], w))\<rparr>"

definition fresh_manager :: SettingsManager where
  "fresh_manager =
     \<lparr>settings_file = ''user_settings.json'', settings = default_settings, callbacks = [],
      save_timer = None, save_delay = 500\<rparr>"

definition fresh_system :: "unit system" where
  "fresh_system = \<lparr>mgr = fresh_manager, timers = [], now = 0, env = ()\<rparr>"

text \<open>Two callables that record each call in \<open>env\<close>; the first one then raises.\<close>

definition recording :: "(nat \<times> string \<times> pyval) list runtime" where
  "recording =
     \<lparr>inherited = (\<lambda>key. False),
      call = (\<lambda>c key v w. (if c = 1 then Some ValueError else None, [], w @ [(c, key, v)]))\<rparr>"

definition recorded_system :: "(nat \<times> string \<times> pyval) list system" where
  "recorded_system =
     \<lparr>mgr = on_change 2 (on_change 1 fresh_manager), timers = [], now = 0, env = []\<rparr>"

text \<open>
  The same two callables, recording each call; the first one is a one-shot listener: it
  unsubscribes itself when it is called.
\<close>

definition one_shot :: "(nat \<times> string \<times> pyval) list runtime" where
  "one_shot =
     \<lparr>inherited = (\<lambda>key. False),
      call = (\<lambda>c key v w. (None, if c = 1 then [1] else [], w @ [(c, key, v)]))\<rparr>"

text \<open>
  A manager whose record was changed since construction, parsers that return a fixed
  document, file systems with an 11 KiB and a small settings file, and fixed results for
  \<open>with_suffix\<close> and \<open>json.dump\<close>.
\<close>

definition changed_manager :: SettingsManager where
  "changed_manager = fresh_manager\<lparr>settings := sample_settings\<rparr>"

definition bad_position_doc :: "string \<Rightarrow> error + json_doc" where
  "bad_position_doc bytes =
     Inr (Mapping [''language'' \<mapsto> PStr ''en'', ''window_position_x'' \<mapsto> PStr ''abc''])"

definition valid_doc :: "string \<Rightarrow> error + json_doc" where
  "valid_doc bytes = Inr (Mapping [''language'' \<mapsto> PStr ''en''])"

definition oversized_files :: files where
  "oversized_files = [''user_settings.json'' \<mapsto> replicate (11 * 1024) CHR ''x'']"

definition small_files :: files where
  "small_files = [''user_settings.json'' \<mapsto> ''{}'']"



text \<open>
  The system after one persisting \<open>set("language", "en")\<close> on the fresh system, with its
  save pending; then after a second caller has run the locked block of
  \<open>set("language", "de")\<close>, and after a third has run that of
  \<open>set("window_mode", "normal")\<close>. \<open>interleaved\<close> is an order in which the statements of
  the \<open>_schedule_save\<close> of these two callers can run: both cancel, then each creates and
  starts its timer.
\<close>

definition pending_system :: "unit system" where
  "pending_system =
     \<lparr>mgr = fresh_manager\<lparr>settings := default_settings\<lparr>language := PStr ''en''\<rparr>,
                            save_timer := Some 0\<rparr>,
      timers = [Waiting 500], now = 0, env = ()\<rparr>"

definition first_done :: "unit system" where
  "first_done =
     pending_system\<lparr>mgr := (mgr pending_system)
       \<lparr>settings := default_settings\<lparr>language := PStr ''de''\<rparr>\<rparr>\<rparr>"

definition both_done :: "unit system" where
  "both_done =
     pending_system\<lparr>mgr := (mgr pending_system)
       \<lparr>settings := default_settings\<lparr>language := PStr ''de'', window_mode := PStr ''normal''\<rparr>\<rparr>\<rparr>"

definition interleaved :: "statement list" where
  "interleaved =
     [Cancel_pending, Cancel_pending, Create_timer, Start_timer, Create_timer, Start_timer]"

text \<open>The calls that follow a first call at time 10 in a burst.\<close>

definition later_calls :: "(nat \<times> string \<times> pyval) list" where
  "later_calls = [(300, ''language'', PStr ''de''), (799, ''window_mode'', PStr ''normal'')]"

section \<open>Properties of the record\<close>

lemma dict_get_to_dict:
  "dict_get (to_dict s) ''push_to_talk_key'' d = push_to_talk_key s"
  "dict_get (to_dict s) ''output_mode'' d = output_mode s"
  "dict_get (to_dict s) ''language'' d = language s"
  "dict_get (to_dict s) ''smart_formatting_enabled'' d = smart_formatting_enabled s"
  "dict_get (to_dict s) ''smart_formatting_level'' d = smart_formatting_level s"
  "dict_get (to_dict s) ''window_mode'' d = window_mode s"
  "dict_get (to_dict s) ''window_position_x'' d = window_position_x s"
  "dict_get (to_dict s) ''window_position_y'' d = window_position_y s"
  by (simp_all add: dict_get_def to_dict_def)

lemma OutputMode_call_error: "OutputMode_call v = Inl e \<Longrightarrow> e = ValueError"
  by (cases v) (auto split: if_splits)

lemma WindowMode_call_error: "WindowMode_call v = Inl e \<Longrightarrow> e = ValueError"
  by (cases v) (auto split: if_splits)

lemma try_OutputMode_total: "\<exists>m. try_OutputMode v = Inr m"
  by (cases "OutputMode_call v") (auto simp: try_OutputMode_def dest: OutputMode_call_error)

lemma try_WindowMode_total: "\<exists>m. try_WindowMode v = Inr m"
  by (cases "WindowMode_call v") (auto simp: try_WindowMode_def dest: WindowMode_call_error)

lemma from_dict_Inr:
  assumes "py_str cfg (dict_get data ''push_to_talk_key'' (PStr ''f2'')) = Inr k"
      and "py_str cfg (dict_get data ''language'' (PStr ''fr'')) = Inr l"
      and "try_OutputMode (dict_get data ''output_mode'' (POutputMode OutputMode_TYPE)) = Inr om"
      and "py_str cfg (dict_get data ''smart_formatting_level'' (PStr ''basic'')) = Inr sl"
      and "py_str cfg (dict_get data ''window_mode'' (PWindowMode WindowMode_FLOATING)) = Inr w"
      and "try_WindowMode (PStr (take 20 w)) = Inr wm"
      and "py_int (dict_get data ''window_position_x'' (PInt (- 1))) = Inr x"
      and "py_int (dict_get data ''window_position_y'' (PInt (- 1))) = Inr y"
  shows "from_dict cfg data =
     Inr \<lparr>push_to_talk_key = PStr (take 50 k),
          output_mode = POutputMode om,
          language = PStr (take 10 l),
          smart_formatting_enabled =
            PBool (py_bool (dict_get data ''smart_formatting_enabled'' (PBool True))),
          smart_formatting_level =
            PStr (if take 10 sl \<notin> set [''none'', ''basic'', ''smart''] then ''basic''
                  else take 10 sl),
          window_mode = PWindowMode wm,
          window_position_x = PInt x,
          window_position_y = PInt y\<rparr>"
  by (simp add: from_dict_def assms)

lemma from_dict_Inl_x:
  assumes "py_str cfg (dict_get data ''push_to_talk_key'' (PStr ''f2'')) = Inr k"
      and "py_str cfg (dict_get data ''language'' (PStr ''fr'')) = Inr l"
      and "py_str cfg (dict_get data ''smart_formatting_level'' (PStr ''basic'')) = Inr sl"
      and "py_str cfg (dict_get data ''window_mode'' (PWindowMode WindowMode_FLOATING)) = Inr w"
      and "py_int (dict_get data ''window_position_x'' (PInt (- 1))) = Inl e"
  shows "from_dict cfg data = Inl e"
proof -
  obtain om where "try_OutputMode (dict_get data ''output_mode'' (POutputMode OutputMode_TYPE)) = Inr om"
    using try_OutputMode_total by blast
  moreover obtain wm where "try_WindowMode (PStr (take 20 w)) = Inr wm"
    using try_WindowMode_total by blast
  ultimately show ?thesis by (simp add: from_dict_def assms)
qed

lemma from_dict_Inl_y:
  assumes "py_str cfg (dict_get data ''push_to_talk_key'' (PStr ''f2'')) = Inr k"
      and "py_str cfg (dict_get data ''language'' (PStr ''fr'')) = Inr l"
      and "py_str cfg (dict_get data ''smart_formatting_level'' (PStr ''basic'')) = Inr sl"
      and "py_str cfg (dict_get data ''window_mode'' (PWindowMode WindowMode_FLOATING)) = Inr w"
      and "py_int (dict_get data ''window_position_x'' (PInt (- 1))) = Inr x"
      and "py_int (dict_get data ''window_position_y'' (PInt (- 1))) = Inl e"
  shows "from_dict cfg data = Inl e"
proof -
  obtain om where "try_OutputMode (dict_get data ''output_mode'' (POutputMode OutputMode_TYPE)) = Inr om"
    using try_OutputMode_total by blast
  moreover obtain wm where "try_WindowMode (PStr (take 20 w)) = Inr wm"
    using try_WindowMode_total by blast
  ultimately show ?thesis by (simp add: from_dict_def assms)
qed

lemma int_of_str_abc: "int_of_str ''abc'' = Inl ValueError"
  by (simp add: int_of_str_def parse_digits_def strip_def is_space_def is_digit_def)

text \<open>
  Claim C2 says that \<open>from_dict\<close> never fails and that a bad value of any of the
  eight fields falls back to the field's default. The two window positions are converted
  with an unguarded \<open>int(...)\<close>: a string that is not a number raises \<open>ValueError\<close>,
  \<open>None\<close> (a JSON \<open>null\<close>) raises \<open>TypeError\<close>, and no record is produced, although
  every other entry of the dictionary is valid.
\<close>

theorem from_dict_bad_position_raises:
  "from_dict cfg [''window_position_x'' \<mapsto> PStr ''abc''] = Inl ValueError
   \<and> from_dict cfg [''language'' \<mapsto> PStr ''en'', ''window_position_y'' \<mapsto> PNone] = Inl TypeError"
proof
  show "from_dict cfg [''window_position_x'' \<mapsto> PStr ''abc''] = Inl ValueError"
    by (rule from_dict_Inl_x [where k = "''f2''" and l = "''fr''" and sl = "''basic''"
          and w = "WindowMode_str cfg WindowMode_FLOATING"])
       (simp_all add: dict_get_def int_of_str_abc)
  show "from_dict cfg [''language'' \<mapsto> PStr ''en'', ''window_position_y'' \<mapsto> PNone] = Inl TypeError"
    by (rule from_dict_Inl_y [where k = "''f2''" and l = "''en''" and sl = "''basic''"
          and w = "WindowMode_str cfg WindowMode_FLOATING" and x = "- 1"])
       (simp_all add: dict_get_def)
qed

text \<open>
  Claim C6: for every record whose fields hold values of their declared domains,
  \<open>from_dict (to_dict r)\<close> returns a record equal to \<open>r\<close>. The window mode goes through
  \<open>str(...)\<close> before the look-up, so where it is held as a member the statement needs
  \<open>str\<close> of that member to be its value.
\<close>

theorem from_dict_to_dict_roundtrip:
  assumes conf: "conforming r"
      and str: "\<forall>m. window_mode r = PWindowMode m \<longrightarrow> WindowMode_str cfg m = WindowMode_value m"
  shows "\<exists>r'. from_dict cfg (to_dict r) = Inr r' \<and> settings_eq r' r"
proof -
  from conf obtain k l b v x y where
    k: "push_to_talk_key r = PStr k" "length k \<le> 50" and
    l: "language r = PStr l" "length l \<le> 10" and
    b: "smart_formatting_enabled r = PBool b" and
    v: "smart_formatting_level r = PStr v" "v \<in> set [''none'', ''basic'', ''smart'']" and
    x: "window_position_x r = PInt x" and
    y: "window_position_y r = PInt y"
    by (auto simp: conforming_def split: pyval.splits)
  obtain om where om: "try_OutputMode (output_mode r) = Inr om"
    "py_eq (POutputMode om) (output_mode r)"
  proof (cases "output_mode r")
    case (POutputMode m)
    then show ?thesis by (intro that [of m]) (simp_all add: try_OutputMode_def py_eq_def)
  next
    case (PStr s)
    with conf have "s = ''type'' \<or> s = ''clipboard''" by (simp add: conforming_def)
    with PStr show ?thesis
      by (intro that [of "if s = ''type'' then OutputMode_TYPE else OutputMode_CLIPBOARD"])
         (auto simp: try_OutputMode_def py_eq_def)
  qed (use conf in \<open>simp_all add: conforming_def\<close>)
  obtain w wm where wm: "py_str cfg (window_mode r) = Inr w"
    "try_WindowMode (PStr (take 20 w)) = Inr wm" "py_eq (PWindowMode wm) (window_mode r)"
  proof (cases "window_mode r")
    case (PWindowMode m)
    with str have "py_str cfg (window_mode r) = Inr (WindowMode_value m)" by simp
    with PWindowMode show ?thesis
      by (intro that [of "WindowMode_value m" m]; cases m)
         (simp_all add: try_WindowMode_def py_eq_def)
  next
    case (PStr s)
    with conf have "s = ''floating'' \<or> s = ''normal''" by (simp add: conforming_def)
    with PStr show ?thesis
      by (intro that [of s "if s = ''floating'' then WindowMode_FLOATING else WindowMode_NORMAL"])
         (auto simp: try_WindowMode_def py_eq_def)
  qed (use conf in \<open>simp_all add: conforming_def\<close>)
  have "from_dict cfg (to_dict r) =
     Inr \<lparr>push_to_talk_key = PStr k,
          output_mode = POutputMode om,
          language = PStr l,
          smart_formatting_enabled = PBool b,
          smart_formatting_level = PStr v,
          window_mode = PWindowMode wm,
          window_position_x = PInt x,
          window_position_y = PInt y\<rparr>"
    using k l b v x y om(1) wm(1,2)
    by (subst from_dict_Inr [where k = k and l = l and om = om and sl = v and w = w and wm = wm
          and x = x and y = y]) (auto simp: dict_get_to_dict)
  moreover have "settings_eq \<lparr>push_to_talk_key = PStr k,
          output_mode = POutputMode om,
          language = PStr l,
          smart_formatting_enabled = PBool b,
          smart_formatting_level = PStr v,
          window_mode = PWindowMode wm,
          window_position_x = PInt x,
          window_position_y = PInt y\<rparr> r"
    using k l b v x y om(2) wm(3) by (simp add: settings_eq_def py_eq_def)
  ultimately show ?thesis by blast
qed

theorem from_dict_to_dict_roundtrip_witness:
  "conforming sample_settings
   \<and> window_mode sample_settings = PWindowMode WindowMode_NORMAL
   \<and> WindowMode_str value_config WindowMode_NORMAL = WindowMode_value WindowMode_NORMAL
   \<and> (\<exists>r'. from_dict value_config (to_dict sample_settings) = Inr r'
          \<and> settings_eq r' sample_settings)"
proof -
  have c: "conforming sample_settings"
    by (simp add: conforming_def sample_settings_def)
  have w: "window_mode sample_settings = PWindowMode WindowMode_NORMAL"
    by (simp add: sample_settings_def)
  have v: "WindowMode_str value_config WindowMode_NORMAL = WindowMode_value WindowMode_NORMAL"
    by (simp add: value_config_def)
  have s: "\<forall>m. window_mode sample_settings = PWindowMode m
          \<longrightarrow> WindowMode_str value_config m = WindowMode_value m"
    using w v by simp
  from from_dict_to_dict_roundtrip [OF c s] c w v show ?thesis by blast
qed

text \<open>
  The hypothesis on \<open>str\<close> is needed: where \<open>str\<close> of a member is \<open>ClassName.MEMBER\<close>,
  a window mode held as the member \<open>NORMAL\<close> comes back as \<open>FLOATING\<close>.
\<close>

lemma roundtrip_when_str_is_name:
  "\<exists>r'. from_dict name_config (to_dict sample_settings) = Inr r'
        \<and> window_mode r' = PWindowMode WindowMode_FLOATING
        \<and> \<not> settings_eq r' sample_settings"
proof -
  have "from_dict name_config (to_dict sample_settings) =
     Inr (sample_settings\<lparr>output_mode := POutputMode OutputMode_CLIPBOARD,
                          window_mode := PWindowMode WindowMode_FLOATING\<rparr>)"
    by (subst from_dict_Inr [where k = "''ctrl+f5''" and l = "''en''" and om = OutputMode_CLIPBOARD
          and sl = "''smart''" and w = "''WindowMode.NORMAL''" and wm = WindowMode_FLOATING
          and x = 42 and y = "- 1"])
       (simp_all add: dict_get_to_dict sample_settings_def name_config_def try_OutputMode_def
          try_WindowMode_def)
  then show ?thesis
    by (simp add: sample_settings_def settings_eq_def py_eq_def)
qed

section \<open>Properties of \<open>set\<close> and \<open>get\<close>\<close>

lemma setattr_settings_field:
  assumes "key \<in> set field_names"
  shows "\<exists>s'. setattr_settings s key v = Inr s' \<and> getattr_settings inh s' key = Field v"
  using assms by (auto simp: field_names_def setattr_settings_def getattr_settings_def)

lemma hasattr_settings_field:
  "key \<in> set field_names \<Longrightarrow> hasattr_settings inh s key"
  by (auto simp: field_names_def hasattr_settings_def getattr_settings_def)

lemma length_cancel [simp]: "length (cancel t ts) = length ts"
  by (simp add: cancel_def split: timer.splits)

lemma schedule_save_alone: "schedule_save sys = Inr (scheduled sys)"
  by (cases "save_timer (mgr sys)")
     (simp_all add: schedule_save_def scheduled_def start_def nth_append list_update_append)

lemma scheduled_frame:
  "settings (mgr (scheduled sys)) = settings (mgr sys)"
  "callbacks (mgr (scheduled sys)) = callbacks (mgr sys)"
  "save_delay (mgr (scheduled sys)) = save_delay (mgr sys)"
  "env (scheduled sys) = env sys"
  "now (scheduled sys) = now sys"
  by (simp_all add: scheduled_def)

lemma fold_remove_callback: "\<exists>cbs. fold remove_callback rs m = m\<lparr>callbacks := cbs\<rparr>"
proof (induction rs arbitrary: m)
  case Nil
  show ?case by (intro exI [of _ "callbacks m"]) simp
next
  case (Cons r rs)
  obtain cbs where "remove_callback r m = m\<lparr>callbacks := cbs\<rparr>"
    by (cases "r \<in> set (callbacks m)") (auto simp: remove_callback_def intro: that [of "callbacks m"])
  with Cons [of "m\<lparr>callbacks := cbs\<rparr>"] show ?case by auto
qed

lemma notify_frame:
  "\<exists>cbs w. notify run i key v sys = sys\<lparr>mgr := (mgr sys)\<lparr>callbacks := cbs\<rparr>, env := w\<rparr>"
proof (induction run i key v sys rule: notify.induct)
  case (1 run i key v sys)
  show ?case
  proof (cases "i < length (callbacks (mgr sys))")
    case False
    then have n: "notify run i key v sys = sys"
      by (subst notify.simps) simp
    show ?thesis
      by (intro exI [of _ "callbacks (mgr sys)"] exI [of _ "env sys"]) (simp add: n)
  next
    case True
    obtain raised removed w where
      r: "run (callbacks (mgr sys) ! i) key v (env sys) = (raised, removed, w)"
      by (cases "run (callbacks (mgr sys) ! i) key v (env sys)")
    obtain cbs where m: "fold remove_callback removed (mgr sys) = (mgr sys)\<lparr>callbacks := cbs\<rparr>"
      using fold_remove_callback by blast
    from "1.IH" [OF True r [symmetric] refl] m obtain cbs' w' where
      "notify run (Suc i) key v (sys\<lparr>mgr := (mgr sys)\<lparr>callbacks := cbs\<rparr>, env := w\<rparr>)
         = sys\<lparr>mgr := (mgr sys)\<lparr>callbacks := cbs'\<rparr>, env := w'\<rparr>"
      by auto
    with True r m show ?thesis by (subst notify.simps) auto
  qed
qed

lemma notify_keeps:
  "settings (mgr (notify run i key v sys)) = settings (mgr sys)"
  "save_timer (mgr (notify run i key v sys)) = save_timer (mgr sys)"
  "save_delay (mgr (notify run i key v sys)) = save_delay (mgr sys)"
  "timers (notify run i key v sys) = timers sys"
  "now (notify run i key v sys) = now sys"
  using notify_frame [of run i key v sys] by auto

lemma set_setting_field:
  assumes "setattr_settings (settings (mgr sys)) key v = Inr s'"
      and "hasattr_settings (inherited py) (settings (mgr sys)) key"
  shows "set_setting py key v persist sys =
     Inr (notify (call py) 0 key v
           (if persist then scheduled (sys\<lparr>mgr := (mgr sys)\<lparr>settings := s'\<rparr>\<rparr>)
            else sys\<lparr>mgr := (mgr sys)\<lparr>settings := s'\<rparr>\<rparr>))"
  using assms by (simp add: set_setting_def set_locked_def schedule_save_alone)

lemma get_after_set:
  assumes "key \<in> set field_names"
  shows "\<exists>sys'. set_setting py key v persist sys = Inr sys' \<and> get py key dflt sys' = Value v"
proof -
  from setattr_settings_field [OF assms] obtain s' where
    s': "setattr_settings (settings (mgr sys)) key v = Inr s'"
        "getattr_settings (inherited py) s' key = Field v"
    by blast
  show ?thesis
    by (subst set_setting_field [OF s'(1) hasattr_settings_field [OF assms]])
       (simp add: get_def notify_keeps scheduled_frame s'(2))
qed

text \<open>
  Claim C1, as amended: \<open>set\<close> does not sanitize. For every schema field and every
  value, \<open>set\<close> stores the value as it is given, and a following \<open>get\<close> of the field
  returns that value.
\<close>

theorem set_stores_raw_value:
  assumes "key \<in> set field_names"
  shows "\<exists>sys'. set_setting py key v persist sys = Inr sys' \<and> get py key dflt sys' = Value v"
  using get_after_set [OF assms] .

theorem set_stores_raw_value_witness:
  "''push_to_talk_key'' \<in> set field_names
   \<and> (\<exists>sys'. set_setting quiet ''push_to_talk_key'' (PStr (replicate 100 CHR ''a'')) True fresh_system
               = Inr sys'
          \<and> get quiet ''push_to_talk_key'' PNone sys' = Value (PStr (replicate 100 CHR ''a'')))"
proof -
  have f: "''push_to_talk_key'' \<in> set field_names" by (simp add: field_names_def)
  from set_stores_raw_value [OF f] f show ?thesis by blast
qed

text \<open>
  Claim C1 as stated fails: after \<open>set("push_to_talk_key", "a" * 100)\<close> the stored key
  has 100 characters, not 50, and after \<open>set("output_mode", "bogus")\<close> the stored mode is
  the string \<open>"bogus"\<close>.
\<close>

theorem set_sanitizes_counterexample:
  "map_sum id (get quiet ''push_to_talk_key'' PNone)
     (set_setting quiet ''push_to_talk_key'' (PStr (replicate 100 CHR ''a'')) True fresh_system)
     = Inr (Value (PStr (replicate 100 CHR ''a'')))
   \<and> length (replicate 100 CHR ''a'') = 100
   \<and> map_sum id (get quiet ''output_mode'' PNone)
     (set_setting quiet ''output_mode'' (PStr ''bogus'') True fresh_system)
     = Inr (Value (PStr ''bogus''))"
proof -
  have "''push_to_talk_key'' \<in> set field_names" and "''output_mode'' \<in> set field_names"
    by (simp_all add: field_names_def)
  from get_after_set [OF this(1), of quiet "PStr (replicate 100 CHR ''a'')" True fresh_system PNone]
       get_after_set [OF this(2), of quiet "PStr ''bogus''" True fresh_system PNone]
  show ?thesis by auto
qed

text \<open>
  Claim C9 says that \<open>set\<close> with a key that is not one of the eight fields is a no-op
  and reports no error. The guard is \<open>hasattr\<close>, which also holds for the names of the
  record's methods: for \<open>"to_dict"\<close> and \<open>"from_dict"\<close> the call goes on to \<open>setattr\<close>,
  which raises \<open>AttributeError\<close>, and \<open>set\<close> does not catch it.
\<close>

theorem set_method_name_raises:
  "set_setting py ''to_dict'' v persist sys = Inl AttributeError
   \<and> set_setting py ''from_dict'' v persist sys = Inl AttributeError"
  by (simp add: set_setting_def set_locked_def hasattr_settings_def getattr_settings_def
      setattr_settings_def)

text \<open>
  Claim C10: \<open>set_sound_enabled\<close> and \<open>set_history_enabled\<close> leave the whole state
  as it is, for every argument and in every state, and \<open>get_sound_enabled\<close> and
  \<open>get_history_enabled\<close> return \<open>True\<close> in every state, hence also after any such call.
\<close>

theorem sound_and_history_helpers_inert:
  "set_sound_enabled py enabled sys = Inr sys
   \<and> set_history_enabled py enabled sys = Inr sys
   \<and> get_sound_enabled py sys = Value (PBool True)
   \<and> get_history_enabled py sys = Value (PBool True)"
  by (simp add: set_sound_enabled_def set_history_enabled_def get_sound_enabled_def
      get_history_enabled_def set_setting_def set_locked_def get_def hasattr_settings_def
      getattr_settings_def dunder_def)

subsection \<open>Notification\<close>

text \<open>
  Where no registered callable unsubscribes anything, the loop calls every registered
  callable on \<open>(key, value)\<close> in list order, whether or not some of them raise, and the
  list is unchanged.
\<close>

lemma notify_without_removal:
  assumes "\<forall>c \<in> set (callbacks (mgr sys)). \<forall>w. fst (snd (run c key v w)) = []"
  shows "notify run i key v sys =
     sys\<lparr>env := foldl (\<lambda>w c. snd (snd (run c key v w))) (env sys) (drop i (callbacks (mgr sys)))\<rparr>"
  using assms
proof (induction "length (callbacks (mgr sys)) - i" arbitrary: i sys)
  case 0
  then show ?case by (subst notify.simps) simp
next
  case (Suc n)
  then have i: "i < length (callbacks (mgr sys))" by simp
  let ?c = "callbacks (mgr sys) ! i"
  obtain raised removed w where r: "run ?c key v (env sys) = (raised, removed, w)"
    by (cases "run ?c key v (env sys)")
  from Suc.prems i have "fst (snd (run ?c key v (env sys))) = []" by simp
  with r have removed: "removed = []" by simp
  have "notify run (Suc i) key v (sys\<lparr>env := w\<rparr>) =
     sys\<lparr>env := foldl (\<lambda>w c. snd (snd (run c key v w))) w (drop (Suc i) (callbacks (mgr sys)))\<rparr>"
    using Suc.hyps(1) [of "sys\<lparr>env := w\<rparr>" "Suc i"] Suc.hyps(2) Suc.prems by simp
  moreover have "drop i (callbacks (mgr sys)) = ?c # drop (Suc i) (callbacks (mgr sys))"
    using i by (simp add: Cons_nth_drop_Suc)
  ultimately show ?case using i r removed by (subst notify.simps) simp
qed

lemma set_notifies_without_removal:
  assumes "key \<in> set field_names"
      and "\<forall>c \<in> set (callbacks (mgr sys)). \<forall>w. fst (snd (call py c key v w)) = []"
  shows "\<exists>sys'. set_setting py key v persist sys = Inr sys'
            \<and> env sys' = foldl (\<lambda>w c. snd (snd (call py c key v w))) (env sys) (callbacks (mgr sys))
            \<and> callbacks (mgr sys') = callbacks (mgr sys)"
proof -
  from setattr_settings_field [OF assms(1)] obtain s' where
    s': "setattr_settings (settings (mgr sys)) key v = Inr s'"
    by blast
  show ?thesis
    using assms(2)
    by (subst set_setting_field [OF s' hasattr_settings_field [OF assms(1)]])
       (simp add: notify_without_removal scheduled_frame)
qed

lemma remove_callback_absent: "c \<notin> set (callbacks m) \<Longrightarrow> remove_callback c m = m"
  by (simp add: remove_callback_def)

lemma callbacks_recorded_system: "callbacks (mgr recorded_system) = [1, 2]"
  by (simp add: recorded_system_def on_change_def fresh_manager_def)

lemma raising_callback_example:
  "fst (call recording 1 ''language'' (PStr ''en'') []) = Some ValueError
   \<and> map_sum id env (set_setting recording ''language'' (PStr ''en'') True recorded_system)
       = Inr [(1, ''language'', PStr ''en''), (2, ''language'', PStr ''en'')]"
proof -
  have f: "''language'' \<in> set field_names" by (simp add: field_names_def)
  have n: "\<forall>c \<in> set (callbacks (mgr recorded_system)).
             \<forall>w. fst (snd (call recording c ''language'' (PStr ''en'') w)) = []"
    by (simp add: recording_def)
  have e: "env recorded_system = []" by (simp add: recorded_system_def)
  from set_notifies_without_removal [OF f n, of True] e callbacks_recorded_system
  show ?thesis by (auto simp: recording_def)
qed

text \<open>
  Claim C8 says that after every successful \<open>set\<close> every registered callback is invoked.
  The loop runs over the list itself: when the first of two registered callables
  unsubscribes itself while it is called, the list shrinks under the iterator, which then
  finds nothing at its next index. The second callable is still registered and is never
  called.
\<close>

theorem unsubscribing_callback_skips_next:
  "callbacks (mgr recorded_system) = [1, 2]
   \<and> map_sum id env (set_setting one_shot ''language'' (PStr ''en'') True recorded_system)
       = Inr [(1, ''language'', PStr ''en'')]
   \<and> map_sum id (callbacks \<circ> mgr)
       (set_setting one_shot ''language'' (PStr ''en'') True recorded_system) = Inr [2]"
proof -
  have s: "setattr_settings (settings (mgr recorded_system)) ''language'' (PStr ''en'')
           = Inr ((settings (mgr recorded_system))\<lparr>language := PStr ''en''\<rparr>)"
    by (simp add: setattr_settings_def)
  have h: "hasattr_settings (inherited one_shot) (settings (mgr recorded_system)) ''language''"
    by (simp add: hasattr_settings_def getattr_settings_def)
  let ?sys = "scheduled (recorded_system\<lparr>mgr := (mgr recorded_system)
                \<lparr>settings := (settings (mgr recorded_system))\<lparr>language := PStr ''en''\<rparr>\<rparr>\<rparr>)"
  have c: "callbacks (mgr ?sys) = [1, 2]"
    by (simp add: scheduled_frame callbacks_recorded_system)
  have e: "env ?sys = []"
    by (simp add: scheduled_frame recorded_system_def)
  have one: "call one_shot 1 ''language'' (PStr ''en'') [] = (None, [1], [(1, ''language'', PStr ''en'')])"
    by (simp add: one_shot_def)
  have "notify (call one_shot) 0 ''language'' (PStr ''en'') ?sys
        = ?sys\<lparr>mgr := (mgr ?sys)\<lparr>callbacks := [2]\<rparr>, env := [(1, ''language'', PStr ''en'')]\<rparr>"
    using c e one
    by (subst notify.simps, simp add: remove_callback_def)
       (subst notify.simps, simp)
  with callbacks_recorded_system show ?thesis
    by (simp add: set_setting_field [OF s h])
qed

section \<open>Properties of \<open>load\<close> and \<open>save\<close>\<close>

lemma load_cases:
  "load cfg json_load os_error m fs =
     (case fs (settings_file m) of
        None \<Rightarrow> (False, m)
      | Some bytes \<Rightarrow>
          (if os_error \<noteq> None \<or> MAX_CONFIG_SIZE < length bytes then (False, m)
           else (case json_load bytes of
                   Inl e \<Rightarrow> (False, m)
                 | Inr NotMapping \<Rightarrow> (False, m)
                 | Inr (Mapping data) \<Rightarrow>
                     (case from_dict cfg data of
                        Inl e \<Rightarrow> (False, m)
                      | Inr s \<Rightarrow> (True, m\<lparr>settings := s\<rparr>)))))"
  by (simp add: load_def load_try_def split: option.splits sum.splits json_doc.splits)

lemma init_without_file:
  "SettingsManager_init cfg json_load os_error (Some ''user_settings.json'') Map.empty
     = fresh_manager"
  by (simp add: SettingsManager_init_def load_cases fresh_manager_def)

lemma init_save_delay:
  "save_delay (SettingsManager_init cfg json_load os_error file fs) = 500"
  by (simp add: SettingsManager_init_def load_cases split: option.splits sum.splits json_doc.splits)

lemma load_False_unchanged:
  "fst (load cfg json_load os_error m fs) = False \<Longrightarrow> snd (load cfg json_load os_error m fs) = m"
  by (auto simp: load_cases split: option.splits sum.splits json_doc.splits if_splits)

text \<open>
  Claim C4: when the settings file is absent, or the operating system refuses to read
  it, or it is larger than the bound, or \<open>json.load\<close> raises, or the document is not a
  mapping, or \<open>from_dict\<close> raises, \<open>load\<close> returns \<open>False\<close> and the manager is the one
  it was before the call. \<open>load\<close> has no raising outcome: its \<open>try\<close> catches every
  exception.
\<close>

theorem load_failure_keeps_record:
  assumes "fs (settings_file m) = None
           \<or> (\<exists>bytes. fs (settings_file m) = Some bytes
                 \<and> (os_error \<noteq> None
                    \<or> MAX_CONFIG_SIZE < length bytes
                    \<or> (\<exists>e. json_load bytes = Inl e)
                    \<or> json_load bytes = Inr NotMapping
                    \<or> (\<exists>data e. json_load bytes = Inr (Mapping data) \<and> from_dict cfg data = Inl e)))"
  shows "load cfg json_load os_error m fs = (False, m)"
  using assms by (auto simp: load_cases)

theorem load_failure_keeps_record_witness:
  "small_files (settings_file changed_manager) = Some ''{}''
   \<and> bad_position_doc ''{}''
       = Inr (Mapping [''language'' \<mapsto> PStr ''en'', ''window_position_x'' \<mapsto> PStr ''abc''])
   \<and> from_dict value_config [''language'' \<mapsto> PStr ''en'', ''window_position_x'' \<mapsto> PStr ''abc'']
       = Inl ValueError
   \<and> load value_config bad_position_doc None changed_manager small_files = (False, changed_manager)
   \<and> settings changed_manager = sample_settings"
proof -
  have a: "small_files (settings_file changed_manager) = Some ''{}''"
    by (simp add: small_files_def changed_manager_def fresh_manager_def)
  have b: "bad_position_doc ''{}''
       = Inr (Mapping [''language'' \<mapsto> PStr ''en'', ''window_position_x'' \<mapsto> PStr ''abc''])"
    by (simp add: bad_position_doc_def)
  have c: "from_dict value_config [''language'' \<mapsto> PStr ''en'', ''window_position_x'' \<mapsto> PStr ''abc'']
       = Inl ValueError"
    by (rule from_dict_Inl_x [where k = "''f2''" and l = "''en''" and sl = "''basic''"
          and w = "''floating''"])
       (simp_all add: dict_get_def int_of_str_abc value_config_def)
  have d: "settings changed_manager = sample_settings"
    by (simp add: changed_manager_def)
  from a b c
  have "load value_config bad_position_doc None changed_manager small_files = (False, changed_manager)"
    by (intro load_failure_keeps_record) blast
  with a b c d show ?thesis by blast
qed

text \<open>
  Claim C5: a settings file longer than 10 KiB, a \<open>JSONDecodeError\<close>, or a document
  that is not a mapping makes \<open>load\<close> return \<open>False\<close> with the manager unchanged, and a
  manager constructed on such a file holds the defaults. For the oversized file this
  holds whatever the parser would return: the parser is not consulted.
\<close>

theorem load_rejects_oversized:
  assumes "fs (settings_file m) = Some bytes"
      and "MAX_CONFIG_SIZE < length bytes
           \<or> json_load bytes = Inl JSONDecodeError
           \<or> json_load bytes = Inr NotMapping"
  shows "load cfg json_load os_error m fs = (False, m)
         \<and> (MAX_CONFIG_SIZE < length bytes \<longrightarrow> (\<forall>parse. load cfg parse os_error m fs = (False, m)))
         \<and> settings (SettingsManager_init cfg json_load os_error (Some (settings_file m)) fs)
             = default_settings"
  using assms by (auto simp: load_cases SettingsManager_init_def)

theorem load_rejects_oversized_witness:
  "oversized_files (settings_file fresh_manager) = Some (replicate (11 * 1024) CHR ''x'')
   \<and> MAX_CONFIG_SIZE < length (replicate (11 * 1024) CHR ''x'')
   \<and> load value_config valid_doc None fresh_manager oversized_files = (False, fresh_manager)
   \<and> settings (SettingsManager_init value_config valid_doc None (Some (settings_file fresh_manager))
        oversized_files) = default_settings"
proof -
  have a: "oversized_files (settings_file fresh_manager) = Some (replicate (11 * 1024) CHR ''x'')"
    by (simp add: oversized_files_def fresh_manager_def)
  have b: "MAX_CONFIG_SIZE < length (replicate (11 * 1024) CHR ''x'')"
    by (simp add: MAX_CONFIG_SIZE_def)
  have c: "MAX_CONFIG_SIZE < length (replicate (11 * 1024) CHR ''x'')
           \<or> valid_doc (replicate (11 * 1024) CHR ''x'') = Inl JSONDecodeError
           \<or> valid_doc (replicate (11 * 1024) CHR ''x'') = Inr NotMapping"
    using b by blast
  from load_rejects_oversized [where fs = oversized_files and m = fresh_manager
      and json_load = valid_doc and cfg = value_config and os_error = None, OF a c] a b
  show ?thesis by blast
qed






section \<open>Properties of the debounce timer\<close>

lemma set_outstanding:
  "set (outstanding sys) = {i. i < length (timers sys) \<and> is_waiting (timers sys ! i)}"
  by (auto simp: outstanding_def)

lemma distinct_outstanding: "distinct (outstanding sys)"
  by (simp add: outstanding_def)

lemma tidy_at_most_one:
  assumes "tidy sys"
  shows "length (outstanding sys) \<le> 1"
proof (cases "save_timer (mgr sys)")
  case None
  with assms have "outstanding sys = []"
    by (cases "outstanding sys") (simp_all add: tidy_def)
  then show ?thesis by simp
next
  case (Some t)
  with assms have "set (outstanding sys) \<subseteq> {t}"
    by (auto simp: tidy_def list_all_iff)
  then have "card (set (outstanding sys)) \<le> card {t}"
    by (intro card_mono) simp_all
  then show ?thesis
    using distinct_card [OF distinct_outstanding, of sys] by simp
qed

lemma no_waiting_outstanding:
  assumes "\<forall>x \<in> set ts. \<not> is_waiting x"
  shows "filter (\<lambda>i. is_waiting (ts ! i)) [0..<length ts] = []"
  using assms by (auto simp: filter_empty_conv)

lemma outstanding_snoc:
  assumes "\<forall>x \<in> set ts. \<not> is_waiting x"
  shows "filter (\<lambda>i. is_waiting ((ts @ [Waiting d]) ! i)) [0..<length (ts @ [Waiting d])] = [length ts]"
proof -
  have "filter (\<lambda>i. is_waiting ((ts @ [Waiting d]) ! i)) [0..<length ts] = []"
    using assms by (auto simp: filter_empty_conv nth_append)
  then show ?thesis by simp
qed

lemma cancel_clears:
  assumes "tidy sys"
  shows "\<forall>x \<in> set (case save_timer (mgr sys) of None \<Rightarrow> timers sys | Some t \<Rightarrow> cancel t (timers sys)).
           \<not> is_waiting x"
proof (cases "save_timer (mgr sys)")
  case None
  with assms have "outstanding sys = []"
    by (cases "outstanding sys") (simp_all add: tidy_def)
  then have "\<forall>i < length (timers sys). \<not> is_waiting (timers sys ! i)"
    using set_outstanding [of sys] by auto
  with None show ?thesis by (auto simp: in_set_conv_nth)
next
  case (Some t)
  from assms Some have only: "\<forall>i < length (timers sys). is_waiting (timers sys ! i) \<longrightarrow> i = t"
    using set_outstanding [of sys] by (auto simp: tidy_def list_all_iff)
  have "\<not> is_waiting (cancel t (timers sys) ! i)" if "i < length (cancel t (timers sys))" for i
  proof -
    from that have i: "i < length (timers sys)"
      by (auto simp: cancel_def split: if_splits timer.splits)
    show ?thesis
    proof (cases "i = t")
      case True
      with i show ?thesis by (cases "timers sys ! t") (simp_all add: cancel_def)
    next
      case False
      with only i have "\<not> is_waiting (timers sys ! i)" by blast
      with False i show ?thesis by (auto simp: cancel_def split: timer.splits)
    qed
  qed
  with Some show ?thesis by (auto simp: in_set_conv_nth)
qed

lemma scheduled_armed:
  assumes "tidy sys"
  shows "armed (now sys + save_delay (mgr sys)) (scheduled sys)"
proof -
  let ?ts = "case save_timer (mgr sys) of None \<Rightarrow> timers sys | Some t \<Rightarrow> cancel t (timers sys)"
  have t: "timers (scheduled sys) = ?ts @ [Waiting (now sys + save_delay (mgr sys))]"
    and h: "save_timer (mgr (scheduled sys)) = Some (length ?ts)"
    by (simp_all add: scheduled_def split: option.splits)
  have "outstanding (scheduled sys) = [length ?ts]"
    unfolding outstanding_def t by (rule outstanding_snoc [OF cancel_clears [OF assms]])
  with t h show ?thesis by (simp add: armed_def)
qed

lemma armed_tidy: "armed d sys \<Longrightarrow> tidy sys"
  by (auto simp: armed_def tidy_def split: list.splits)

lemma armed_one: "armed d sys \<Longrightarrow> length (outstanding sys) = 1"
  by (auto simp: armed_def split: list.splits)

lemma outstanding_env [simp]: "outstanding (sys\<lparr>env := w\<rparr>) = outstanding sys"
  by (simp add: outstanding_def)

lemma outstanding_now [simp]: "outstanding (sys\<lparr>now := t\<rparr>) = outstanding sys"
  by (simp add: outstanding_def)

lemma outstanding_settings [simp]:
  "outstanding (sys\<lparr>mgr := (mgr sys)\<lparr>settings := s\<rparr>\<rparr>) = outstanding sys"
  by (simp add: outstanding_def)

lemma armed_env [simp]: "armed d (sys\<lparr>env := w\<rparr>) = armed d sys"
  by (simp add: armed_def split: list.splits)

lemma armed_notify [simp]: "armed d (notify run i key v sys) = armed d sys"
proof -
  obtain cbs w where
    "notify run i key v sys = sys\<lparr>mgr := (mgr sys)\<lparr>callbacks := cbs\<rparr>, env := w\<rparr>"
    using notify_frame [of run i key v sys] by blast
  then show ?thesis by (simp add: armed_def outstanding_def split: list.splits)
qed

lemma armed_now [simp]: "armed d (sys\<lparr>now := t\<rparr>) = armed d sys"
  by (simp add: armed_def split: list.splits)

lemma tidy_settings [simp]: "tidy (sys\<lparr>mgr := (mgr sys)\<lparr>settings := s\<rparr>\<rparr>) = tidy sys"
  by (simp add: tidy_def)

lemma tidy_env [simp]: "tidy (sys\<lparr>env := w\<rparr>) = tidy sys"
  by (simp add: tidy_def)

lemma tidy_now [simp]: "tidy (sys\<lparr>now := t\<rparr>) = tidy sys"
  by (simp add: tidy_def)

lemma armed_waiting_deadline:
  assumes "armed d sys" and "x \<in> set (timers sys)" and "is_waiting x"
  shows "x = Waiting d"
proof -
  from assms(1) obtain i where i: "outstanding sys = [i]" "timers sys ! i = Waiting d"
    by (auto simp: armed_def split: list.splits)
  from assms(2) obtain j where j: "j < length (timers sys)" "timers sys ! j = x"
    by (auto simp: in_set_conv_nth)
  with assms(3) have "j \<in> set (outstanding sys)" by (simp add: set_outstanding)
  with i j show ?thesis by simp
qed

lemma due_waiting: "due t x \<Longrightarrow> is_waiting x"
  by (cases x) simp_all

lemma armed_not_due:
  assumes "armed d sys" and "t < d"
  shows "\<forall>x \<in> set (timers sys). \<not> due t x"
proof
  fix x assume x: "x \<in> set (timers sys)"
  show "\<not> due t x"
  proof
    assume "due t x"
    with armed_waiting_deadline [OF assms(1) x] due_waiting have "due t (Waiting d)" by auto
    with assms(2) show False by simp
  qed
qed

lemma advance_nothing_due:
  assumes "\<forall>x \<in> set (timers sys). \<not> due t x"
  shows "advance t sys = (sys\<lparr>now := max (now sys) t\<rparr>, [])"
proof -
  from assms have "map (\<lambda>x. if due t x then Fired else x) (timers sys) = timers sys"
    by (simp add: map_idI)
  moreover from assms have "filter (due t) (timers sys) = []"
    by (simp add: filter_empty_conv)
  ultimately show ?thesis by (simp add: advance_def)
qed

lemma filter_waiting_nth:
  "filter is_waiting ts = map (\<lambda>i. ts ! i) (filter (\<lambda>i. is_waiting (ts ! i)) [0..<length ts])"
proof -
  have "filter is_waiting (map (\<lambda>i. ts ! i) [0..<length ts])
        = map (\<lambda>i. ts ! i) (filter (\<lambda>i. is_waiting (ts ! i)) [0..<length ts])"
    by (simp add: filter_map comp_def)
  then show ?thesis by (simp add: map_nth)
qed

lemma advance_fires:
  assumes "armed d sys" and "d \<le> t"
  shows "snd (advance t sys) = [settings (mgr sys)]"
    and "outstanding (fst (advance t sys)) = []"
proof -
  from assms(1) obtain i where i: "outstanding sys = [i]" "timers sys ! i = Waiting d"
    by (auto simp: armed_def split: list.splits)
  have w: "filter is_waiting (timers sys) = [Waiting d]"
    using i by (simp add: filter_waiting_nth [of "timers sys"] outstanding_def [symmetric])
  have "filter (due t) (timers sys) = filter (due t) (filter is_waiting (timers sys))"
    by (auto simp: due_waiting intro: filter_cong)
  with w assms(2) have "filter (due t) (timers sys) = [Waiting d]" by simp
  then show "snd (advance t sys) = [settings (mgr sys)]"
    by (simp add: advance_def)
  have "due t x" if "x \<in> set (timers sys)" "is_waiting x" for x
    using armed_waiting_deadline [OF assms(1) that] assms(2) by simp
  then have "\<forall>x \<in> set (timers (fst (advance t sys))). \<not> is_waiting x"
    by (auto simp: advance_def)
  then show "outstanding (fst (advance t sys)) = []"
    unfolding outstanding_def by (rule no_waiting_outstanding)
qed

lemma set_persisting_arms:
  assumes "tidy sys" and "key \<in> set field_names"
  shows "\<exists>sys'. set_setting py key v True sys = Inr sys'
           \<and> armed (now sys + save_delay (mgr sys)) sys'
           \<and> now sys' = now sys \<and> save_delay (mgr sys') = save_delay (mgr sys)"
proof -
  from setattr_settings_field [OF assms(2)] obtain s' where
    s': "setattr_settings (settings (mgr sys)) key v = Inr s'"
    by blast
  let ?sys1 = "sys\<lparr>mgr := (mgr sys)\<lparr>settings := s'\<rparr>\<rparr>"
  have "tidy ?sys1" using assms(1) by simp
  from scheduled_armed [OF this]
  have "armed (now sys + save_delay (mgr sys)) (scheduled ?sys1)" by simp
  then show ?thesis
    by (subst set_setting_field [OF s' hasattr_settings_field [OF assms(2)]])
       (simp add: scheduled_frame notify_keeps)
qed

lemma call_in_window:
  assumes "tidy sys" and "filter (due t) (timers sys) = []" and "now sys \<le> t"
      and "key \<in> set field_names"
  shows "\<exists>sys1 sys2. advance t sys = (sys1, []) \<and> set_setting py key v True sys1 = Inr sys2
           \<and> armed (t + save_delay (mgr sys)) sys2
           \<and> now sys2 = t \<and> save_delay (mgr sys2) = save_delay (mgr sys)"
proof -
  from assms(2) have "\<forall>x \<in> set (timers sys). \<not> due t x"
    by (simp add: filter_empty_conv)
  from advance_nothing_due [OF this] assms(3)
  have a: "advance t sys = (sys\<lparr>now := t\<rparr>, [])" by (simp add: max_def)
  have "tidy (sys\<lparr>now := t\<rparr>)" using assms(1) by simp
  from set_persisting_arms [OF this assms(4), of py v] a show ?thesis by auto
qed

lemma run_rapid:
  assumes "armed (t + D) sys" and "now sys = t" and "save_delay (mgr sys) = D" and "rapid D t rest"
  shows "\<exists>sys'. run_calls py rest sys = Inr (sys', [])
           \<and> armed (last_time t rest + D) sys'
           \<and> now sys' = last_time t rest \<and> save_delay (mgr sys') = D"
  using assms
proof (induction rest arbitrary: sys t)
  case Nil
  then show ?case by simp
next
  case (Cons c rest)
  obtain t' key v where c: "c = (t', key, v)" by (cases c)
  from Cons.prems(4) c have w: "t \<le> t'" "t' < t + D" "key \<in> set field_names" "rapid D t' rest"
    by simp_all
  from armed_not_due [OF Cons.prems(1) w(2)]
  have nd: "filter (due t') (timers sys) = []" by (simp add: filter_empty_conv)
  from call_in_window [OF armed_tidy [OF Cons.prems(1)] nd _ w(3), of py v] Cons.prems(2,3) w(1)
  obtain sys1 sys2 where
    s: "advance t' sys = (sys1, [])" "set_setting py key v True sys1 = Inr sys2"
       "armed (t' + D) sys2" "now sys2 = t'" "save_delay (mgr sys2) = D"
    by auto
  from Cons.IH [OF s(3) s(4) s(5) w(4)] obtain sys' where
    r: "run_calls py rest sys2 = Inr (sys', [])" "armed (last_time t' rest + D) sys'"
       "now sys' = last_time t' rest" "save_delay (mgr sys') = D"
    by blast
  from s r c show ?case by simp
qed

lemma rapid_take: "rapid D t rest \<Longrightarrow> rapid D t (take n rest)"
proof (induction rest arbitrary: t n)
  case Nil
  then show ?case by simp
next
  case (Cons c rest)
  then show ?case by (cases n; cases c) simp_all
qed

lemma run_burst:
  assumes "tidy sys" and "filter (due t) (timers sys) = []" and "now sys \<le> t"
      and "key \<in> set field_names" and "rapid (save_delay (mgr sys)) t rest"
  shows "\<exists>sys'. run_calls py ((t, key, v) # rest) sys = Inr (sys', [])
           \<and> armed (last_time t rest + save_delay (mgr sys)) sys'"
proof -
  from call_in_window [OF assms(1-4), of py v] obtain sys1 sys2 where
    s: "advance t sys = (sys1, [])" "set_setting py key v True sys1 = Inr sys2"
       "armed (t + save_delay (mgr sys)) sys2" "now sys2 = t"
       "save_delay (mgr sys2) = save_delay (mgr sys)"
    by blast
  from run_rapid [OF s(3) s(4) s(5) assms(5), of py] obtain sys' where
    "run_calls py rest sys2 = Inr (sys', [])"
    "armed (last_time t rest + save_delay (mgr sys)) sys'"
    by blast
  with s show ?thesis by simp
qed

text \<open>
  One caller at a time: re-arming leaves at most one timer outstanding, and a burst of
  persisting \<open>set\<close> calls, each less than the delay after the one before, gives exactly
  one save, of the record as it is after the last call. \<open>tidy\<close> holds after every prefix
  of the burst, so a timer that was superseded is never outstanding. No save happens
  during the burst or before the delay has passed since its last call; the first
  \<open>advance\<close> to a time at or past that point fires one timer, which saves the final
  record, and leaves none outstanding.
\<close>

lemma sequential_burst_gives_one_save:
  assumes "tidy sys" and "filter (due t) (timers sys) = []" and "now sys \<le> t"
      and "key \<in> set field_names" and "rapid (save_delay (mgr sys)) t rest"
      and "last_time t rest + save_delay (mgr sys) \<le> T"
  shows "(\<forall>n. \<exists>sysn. run_calls py (take n ((t, key, v) # rest)) sys = Inr (sysn, [])
              \<and> tidy sysn \<and> length (outstanding sysn) \<le> 1)
         \<and> (\<exists>sys'. run_calls py ((t, key, v) # rest) sys = Inr (sys', [])
              \<and> length (outstanding sys') = 1
              \<and> (\<forall>t'. t' < last_time t rest + save_delay (mgr sys) \<longrightarrow> snd (advance t' sys') = [])
              \<and> snd (advance T sys') = [settings (mgr sys')]
              \<and> outstanding (fst (advance T sys')) = [])"
proof
  show "\<forall>n. \<exists>sysn. run_calls py (take n ((t, key, v) # rest)) sys = Inr (sysn, [])
              \<and> tidy sysn \<and> length (outstanding sysn) \<le> 1"
  proof
    fix n
    show "\<exists>sysn. run_calls py (take n ((t, key, v) # rest)) sys = Inr (sysn, [])
              \<and> tidy sysn \<and> length (outstanding sysn) \<le> 1"
    proof (cases n)
      case 0
      with assms(1) tidy_at_most_one [OF assms(1)] show ?thesis by simp
    next
      case (Suc k)
      from run_burst [where rest = "take k rest" and py = py and v = v,
          OF assms(1-4) rapid_take [OF assms(5)]] obtain sysn where
        "run_calls py ((t, key, v) # take k rest) sys = Inr (sysn, [])"
        "armed (last_time t (take k rest) + save_delay (mgr sys)) sysn"
        by blast
      with Suc armed_tidy armed_one show ?thesis by fastforce
    qed
  qed
  from run_burst [OF assms(1-5), of py v] obtain sys' where
    r: "run_calls py ((t, key, v) # rest) sys = Inr (sys', [])"
       "armed (last_time t rest + save_delay (mgr sys)) sys'"
    by blast
  have "snd (advance t' sys') = []" if "t' < last_time t rest + save_delay (mgr sys)" for t'
    using advance_nothing_due [OF armed_not_due [OF r(2) that]] by simp
  with r armed_one [OF r(2)] advance_fires [OF r(2) assms(6)]
  show "\<exists>sys'. run_calls py ((t, key, v) # rest) sys = Inr (sys', [])
              \<and> length (outstanding sys') = 1
              \<and> (\<forall>t'. t' < last_time t rest + save_delay (mgr sys) \<longrightarrow> snd (advance t' sys') = [])
              \<and> snd (advance T sys') = [settings (mgr sys')]
              \<and> outstanding (fst (advance T sys')) = []"
    by blast
qed

lemma sequential_burst_example:
  "tidy fresh_system
   \<and> filter (due 10) (timers fresh_system) = []
   \<and> now fresh_system \<le> 10
   \<and> ''language'' \<in> set field_names
   \<and> rapid (save_delay (mgr fresh_system)) 10 later_calls
   \<and> last_time 10 later_calls + save_delay (mgr fresh_system) \<le> 1299
   \<and> (\<exists>sys'. run_calls quiet ((10, ''language'', PStr ''en'') # later_calls) fresh_system
                = Inr (sys', [])
          \<and> length (outstanding sys') = 1
          \<and> snd (advance 1298 sys') = []
          \<and> snd (advance 1299 sys') = [settings (mgr sys')])"
proof -
  have a: "tidy fresh_system"
    by (simp add: tidy_def outstanding_def fresh_system_def)
  have b: "filter (due 10) (timers fresh_system) = []"
    by (simp add: fresh_system_def)
  have c: "now fresh_system \<le> 10"
    by (simp add: fresh_system_def)
  have d: "''language'' \<in> set field_names"
    by (simp add: field_names_def)
  have e: "rapid (save_delay (mgr fresh_system)) 10 later_calls"
    by (simp add: later_calls_def fresh_system_def fresh_manager_def field_names_def)
  have l: "last_time 10 later_calls + save_delay (mgr fresh_system) = 1299"
    by (simp add: later_calls_def fresh_system_def fresh_manager_def)
  then have f: "last_time 10 later_calls + save_delay (mgr fresh_system) \<le> 1299"
    by simp
  from sequential_burst_gives_one_save [OF a b c d e f, of quiet "PStr ''en''"] obtain sys' where
    r: "run_calls quiet ((10, ''language'', PStr ''en'') # later_calls) fresh_system = Inr (sys', [])"
       "length (outstanding sys') = 1"
       "\<forall>t'. t' < last_time 10 later_calls + save_delay (mgr fresh_system)
           \<longrightarrow> snd (advance t' sys') = []"
       "snd (advance 1299 sys') = [settings (mgr sys')]"
    by blast
  from r(3) l have "snd (advance 1298 sys') = []" by simp
  with a b c d e f r show ?thesis by blast
qed

text \<open>
  Claim C3 says that at most one save timer is outstanding at any time and that a burst
  gives exactly one write. \<open>set\<close> runs \<open>_schedule_save\<close> after it has released the lock,
  so the statements of two callers can interleave. With one save pending, two callers
  store their values under the lock; then both cancel the pending timer, and each creates
  and starts a timer of its own. Two timers are outstanding, and both fire: the burst is
  saved twice.
\<close>

theorem interleaved_callers_arm_two_timers:
  "set_setting quiet ''language'' (PStr ''en'') True fresh_system = Inr pending_system
   \<and> outstanding pending_system = [0]
   \<and> set_locked (inherited quiet) ''language'' (PStr ''de'') pending_system = Inr (Some first_done)
   \<and> set_locked (inherited quiet) ''window_mode'' (PStr ''normal'') first_done = Inr (Some both_done)
   \<and> map_sum id outstanding (run_statements interleaved both_done) = Inr [1, 2]
   \<and> map_sum id (snd \<circ> advance 500) (run_statements interleaved both_done)
       = Inr [settings (mgr both_done), settings (mgr both_done)]"
proof -
  have s: "setattr_settings (settings (mgr fresh_system)) ''language'' (PStr ''en'')
           = Inr ((settings (mgr fresh_system))\<lparr>language := PStr ''en''\<rparr>)"
    by (simp add: setattr_settings_def)
  have h: "hasattr_settings (inherited quiet) (settings (mgr fresh_system)) ''language''"
    by (simp add: hasattr_settings_def getattr_settings_def)
  have n: "notify (call quiet) 0 key v sys = sys" if "callbacks (mgr sys) = []" for key v
    and sys :: "unit system"
    using that by (subst notify.simps) simp
  have 1: "set_setting quiet ''language'' (PStr ''en'') True fresh_system = Inr pending_system"
    by (subst set_setting_field [OF s h])
       (simp add: n scheduled_def fresh_system_def fresh_manager_def pending_system_def)
  have 2: "outstanding pending_system = [0]"
    by (simp add: outstanding_def pending_system_def)
  have 3: "set_locked (inherited quiet) ''language'' (PStr ''de'') pending_system = Inr (Some first_done)"
    by (simp add: set_locked_def hasattr_settings_def getattr_settings_def setattr_settings_def
        pending_system_def first_done_def fresh_manager_def default_settings_def)
  have 4: "set_locked (inherited quiet) ''window_mode'' (PStr ''normal'') first_done
           = Inr (Some both_done)"
    by (simp add: set_locked_def hasattr_settings_def getattr_settings_def setattr_settings_def
        pending_system_def first_done_def both_done_def fresh_manager_def default_settings_def)
  have r: "run_statements interleaved both_done
           = Inr (both_done\<lparr>timers := [Cancelled, Waiting 500, Waiting 500],
                            mgr := (mgr both_done)\<lparr>save_timer := Some 2\<rparr>\<rparr>)"
    by (simp add: interleaved_def both_done_def pending_system_def fresh_manager_def cancel_def
        start_def)
  have 5: "map_sum id outstanding (run_statements interleaved both_done) = Inr [1, 2]"
    by (simp add: r outstanding_def upt_rec)
  have 6: "map_sum id (snd \<circ> advance 500) (run_statements interleaved both_done)
       = Inr [settings (mgr both_done), settings (mgr both_done)]"
    by (simp add: r advance_def)
  from 1 2 3 4 5 6 show ?thesis by simp
qed

end
